theory Spec2Isabelle
  imports Complex_Main
begin

section \<open>Valve torque/thrust calculation and actuator selection (app-torque.py)\<close>

text \<open>
  The engine of \<^verbatim>\<open>app-torque.py\<close>: the requirement calculator
  (\<^verbatim>\<open>calculate_valve_torque_thrust\<close> and the per-type formulas it dispatches to) and the
  actuator selector (\<^verbatim>\<open>find_suitable_actuators\<close>).

  Numbers. The requirement calculator is modelled over the reals: Python's \<^verbatim>\<open>int\<close> and
  \<^verbatim>\<open>float\<close> values are the real numbers they denote, a decimal literal such as
  \<^verbatim>\<open>0.8\<close> is the real \<open>0.8\<close>, \<^verbatim>\<open>math.pi\<close> is \<open>pi\<close>, and
  \<^verbatim>\<open>+ - * /\<close> are the exact operations. The actuator selector is modelled in double
  precision: its threshold test and the margin it stores depend on the rounding of each
  operation, so \<^verbatim>\<open>*\<close>, \<^verbatim>\<open>/\<close> and \<^verbatim>\<open>-\<close> there are the IEEE operations of
  Python's \<^verbatim>\<open>float\<close> (round to nearest, ties to even, with subnormals, overflow to
  infinity, and \<^verbatim>\<open>ZeroDivisionError\<close> for a zero divisor). The numbers given to the
  selector are finite floats, written as the reals they are.

  Strings. Valve types, seat materials, unit labels and supply types are compared as strings in
  the source and are strings here.
\<close>

subsection \<open>Constants\<close>

definition SAFETY_FACTORS :: "string \<rightharpoonup> real" where
  "SAFETY_FACTORS = [''Standard'' \<mapsto> 1.25, ''High'' \<mapsto> 1.5, ''Critical'' \<mapsto> 2.0]"

definition SEAL_FRICTION :: "string \<rightharpoonup> real" where
  "SEAL_FRICTION =
     [''PTFE'' \<mapsto> 0.05, ''Graphite'' \<mapsto> 0.1, ''Metal'' \<mapsto> 0.15, ''Elastomer'' \<mapsto> 0.08]"

subsection \<open>Valves\<close>

text \<open>
  \<^verbatim>\<open>class Valve\<close>. The fields are in the order of the constructor's parameters, so that
  \<open>Valve.make\<close> reads like the constructor call. The attribute \<^verbatim>\<open>size\<close> is the field
  \<open>size_inch\<close> (the name of the constructor's parameter), since \<open>size\<close> is a constant of
  HOL.
\<close>

record Valve =
  size_inch :: real
  type :: string
  pressure_class :: real
  seat_material :: string
  stem_dia_mm :: real
  max_pressure :: real
  min_pressure :: real
  max_temp :: real
  min_temp :: real

definition get_seal_friction :: "Valve \<Rightarrow> real" where
  "get_seal_friction valve =
     (case SEAL_FRICTION (seat_material valve) of Some f \<Rightarrow> f | None \<Rightarrow> 0.1)"

definition get_area :: "Valve \<Rightarrow> real" where
  "get_area valve = (let radius_m = (size_inch valve * 0.0254) / 2 in pi * radius_m\<^sup>2)"

definition VALVE_DATABASE :: "Valve list" where
  "VALVE_DATABASE =
     [Valve.make 2 ''Ball'' 600 ''PTFE'' 20 100 0 200 (-20),
      Valve.make 4 ''Ball'' 600 ''Metal'' 30 100 0 250 (-20),
      Valve.make 6 ''Butterfly'' 300 ''Elastomer'' 40 40 0 150 (-10),
      Valve.make 8 ''Butterfly'' 150 ''PTFE'' 50 25 0 180 (-10),
      Valve.make 3 ''Globe'' 900 ''Graphite'' 25 150 0 350 (-50),
      Valve.make 6 ''Gate'' 600 ''Graphite'' 35 100 0 400 (-30),
      Valve.make 2 ''Plug'' 600 ''PTFE'' 22 100 0 200 (-20),
      Valve.make 10 ''Diaphragm'' 150 ''Elastomer'' 60 16 0 120 (-10)]"

subsection \<open>Actuators\<close>

text \<open>
  \<^verbatim>\<open>class Actuator\<close>. Its fields \<open>max_pressure\<close>, \<open>min_temp\<close> and \<open>max_temp\<close> have
  the names of the valve's; below they are always written with the record's name in front.
\<close>

record Actuator =
  model :: string
  manufacturer :: string
  torque :: real
  thrust :: real
  max_pressure :: real
  min_temp :: real
  max_temp :: real
  power :: real
  "supply" :: string
  weight :: real
  price :: real

definition ACTUATOR_DATABASE :: "Actuator list" where
  "ACTUATOR_DATABASE =
     [Actuator.make ''SR-100'' ''Rotork'' 1000 0 100 (-30) 120 0.5 ''Pneumatic'' 25 3500,
      Actuator.make ''SR-500'' ''Rotork'' 5000 0 100 (-30) 120 1.0 ''Pneumatic'' 45 5500,
      Actuator.make ''IQT-300'' ''Rotork'' 3000 0 100 (-40) 150 0.75 ''Electric'' 40 6500,
      Actuator.make ''SMC-200'' ''Emerson'' 2000 0 100 (-20) 100 0.6 ''Pneumatic'' 30 4200,
      Actuator.make ''SMC-800'' ''Emerson'' 8000 0 100 (-20) 100 1.5 ''Pneumatic'' 65 7800,
      Actuator.make ''F10'' ''Flowserve'' 0 15000 150 (-50) 200 1.2 ''Hydraulic'' 85 9500,
      Actuator.make ''F25'' ''Flowserve'' 0 25000 200 (-50) 250 2.0 ''Hydraulic'' 120 12500,
      Actuator.make ''E-200'' ''AUMA'' 2000 0 100 (-30) 120 0.8 ''Electric'' 38 5800,
      Actuator.make ''E-1000'' ''AUMA'' 10000 0 100 (-30) 120 2.5 ''Electric'' 95 11200,
      Actuator.make ''H-150'' ''Honeywell'' 0 20000 180 (-40) 180 1.8 ''Hydraulic'' 100 10500]"

subsection \<open>Torque/thrust calculation\<close>

definition calculate_ball_valve_torque :: "Valve \<Rightarrow> real \<Rightarrow> real \<Rightarrow> real" where
  "calculate_ball_valve_torque valve pressure_bar temperature_c =
     (let base_torque = size_inch valve * pressure_bar * 0.8;
          temp_factor = (if temperature_c > 100 then 1.0 + (temperature_c - 100) * 0.005 else 1.0);
          seat_factor = (if seat_material valve = ''Metal'' then 1.3
                         else if seat_material valve = ''Graphite'' then 1.1
                         else 1.0)
      in base_torque * temp_factor * seat_factor)"

text \<open>
  \<^verbatim>\<open>valve.size**1.5\<close> is \<open>powr\<close>. For a negative size Python's \<^verbatim>\<open>**\<close> leaves the reals
  (it returns a complex number); this branch of the model is meant for sizes \<open>\<ge> 0\<close> only,
  and nothing below depends on it.
\<close>

definition calculate_butterfly_valve_torque :: "Valve \<Rightarrow> real \<Rightarrow> real \<Rightarrow> real" where
  "calculate_butterfly_valve_torque valve pressure_bar temperature_c =
     (let base_torque = size_inch valve powr 1.5 * pressure_bar * 0.5;
          temp_factor = (if temperature_c > 80 then 1.0 + (temperature_c - 80) * 0.007 else 1.0);
          seat_factor = (if seat_material valve = ''Elastomer'' then 0.9
                         else if seat_material valve = ''PTFE'' then 1.0
                         else 1.0)
      in base_torque * temp_factor * seat_factor)"

definition calculate_globe_valve_thrust :: "Valve \<Rightarrow> real \<Rightarrow> real \<Rightarrow> real" where
  "calculate_globe_valve_thrust valve pressure_bar temperature_c =
     (let area = get_area valve;
          dp_force = area * pressure_bar * 100000;
          stem_area = pi * (stem_dia_mm valve / 1000 / 2)\<^sup>2;
          packing_force = stem_area * pressure_bar * 100000 * get_seal_friction valve;
          seat_force = size_inch valve * 1000;
          temp_factor = (if temperature_c > 150 then 1.0 + (temperature_c - 150) * 0.002 else 1.0)
      in (dp_force + packing_force + seat_force) * temp_factor)"

definition calculate_gate_valve_thrust :: "Valve \<Rightarrow> real \<Rightarrow> real \<Rightarrow> real" where
  "calculate_gate_valve_thrust valve pressure_bar temperature_c =
     (let area = get_area valve;
          dp_force = area * pressure_bar * 100000;
          stem_area = pi * (stem_dia_mm valve / 1000 / 2)\<^sup>2;
          packing_force = stem_area * pressure_bar * 100000 * get_seal_friction valve;
          wedge_factor = (if type valve = ''Gate'' then 1.5 else 1.0);
          temp_factor = (if temperature_c > 200 then 1.0 + (temperature_c - 200) * 0.0015 else 1.0)
      in (dp_force * wedge_factor + packing_force) * temp_factor)"

definition calculate_valve_torque_thrust :: "Valve \<Rightarrow> real \<Rightarrow> real \<Rightarrow> real \<times> string" where
  "calculate_valve_torque_thrust valve pressure_bar temperature_c =
     (if type valve = ''Ball'' \<or> type valve = ''Plug'' then
        (calculate_ball_valve_torque valve pressure_bar temperature_c, ''Torque (Nm)'')
      else if type valve = ''Butterfly'' then
        (calculate_butterfly_valve_torque valve pressure_bar temperature_c, ''Torque (Nm)'')
      else if type valve = ''Globe'' then
        (calculate_globe_valve_thrust valve pressure_bar temperature_c, ''Thrust (N)'')
      else if type valve = ''Gate'' then
        (calculate_gate_valve_thrust valve pressure_bar temperature_c, ''Thrust (N)'')
      else if type valve = ''Diaphragm'' then
        (let area = get_area valve in (area * pressure_bar * 100000 * 1.2, ''Thrust (N)''))
      else (0, ''Unknown''))"

subsection \<open>Python floats\<close>

text \<open>
  A value of Python's \<^verbatim>\<open>float\<close>: a finite double, given by the real number it is, an
  infinity or NaN. The sign of a zero is not kept; no operation below can tell the two zeros
  apart.
\<close>

datatype pyfloat = Finite real | PosInf | NegInf | NaN

datatype error = ZeroDivisionError

text \<open>\<open>pow2 i\<close> is \<open>2\<^sup>i\<close> for an integer \<open>i\<close> of either sign.\<close>

definition pow2 :: "int \<Rightarrow> real" where
  "pow2 i = (if 0 \<le> i then 2 ^ nat i else 1 / 2 ^ nat (- i))"

text \<open>The number of binary digits of a positive integer, as \<^verbatim>\<open>int.bit_length\<close>.\<close>

function bit_length :: "int \<Rightarrow> nat" where
  "bit_length n = (if n \<le> 0 then 0 else Suc (bit_length (n div 2)))"
  by pat_completeness auto
termination
  by (relation "measure nat") auto

declare bit_length.simps [simp del]

text \<open>
  The binary exponent of a positive real \<open>x\<close>: the \<open>e\<close> with
  \<open>2\<^sup>e \<le> x < 2\<^sup>e\<^sup>+\<^sup>1\<close>, from the digits of the integer part of \<open>x\<close> when
  \<open>x \<ge> 1\<close> and of \<open>1 / x\<close> otherwise.
\<close>

definition exponent :: "real \<Rightarrow> int" where
  "exponent x =
     (if 1 \<le> x then int (bit_length \<lfloor>x\<rfloor>) - 1
      else - int (bit_length (\<lceil>1 / x\<rceil> - 1)))"

definition round_half_even :: "real \<Rightarrow> int" where
  "round_half_even x =
     (let n = \<lfloor>x\<rfloor>; d = x - of_int n
      in if d < 1 / 2 then n else if 1 / 2 < d then n + 1 else if even n then n else n + 1)"

text \<open>
  Rounding of a real to the nearest double, ties to even. A double has 53 significant bits, so
  in the binade of exponent \<open>e\<close> the doubles are the multiples of \<open>2\<^sup>e\<^sup>-\<^sup>5\<^sup>2\<close>; below
  \<open>2\<^sup>-\<^sup>1\<^sup>0\<^sup>2\<^sup>2\<close> they are the multiples of \<open>2\<^sup>-\<^sup>1\<^sup>0\<^sup>7\<^sup>4\<close> (subnormals, and zero
  by underflow). A result of absolute value \<open>2\<^sup>1\<^sup>0\<^sup>2\<^sup>4\<close> or more is an infinity.
\<close>

definition fl :: "real \<Rightarrow> pyfloat" where
  "fl x =
     (if x = 0 then Finite 0
      else
        (let e = max (exponent \<bar>x\<bar>) (- 1022);
             ulp = pow2 (e - 52);
             y = of_int (round_half_even (x / ulp)) * ulp
         in if pow2 1024 \<le> y then PosInf
            else if y \<le> - pow2 1024 then NegInf
            else Finite y))"

fun is_neg :: "pyfloat \<Rightarrow> bool" where
  "is_neg (Finite a) = (a < 0)"
| "is_neg NegInf = True"
| "is_neg PosInf = False"
| "is_neg NaN = False"

text \<open>
  \<^verbatim>\<open>x * y\<close>, \<^verbatim>\<open>x - y\<close>, \<^verbatim>\<open>x / y\<close> and \<^verbatim>\<open>x >= y\<close> on floats. Python's
  division raises for a divisor equal to zero, whatever the dividend is; the other operations
  never raise. An \<^verbatim>\<open>int\<close> operand (a catalogue value, \<^verbatim>\<open>1\<close>, \<^verbatim>\<open>100\<close>) is
  converted to the float of the same value first.
\<close>

fun py_mul :: "pyfloat \<Rightarrow> pyfloat \<Rightarrow> pyfloat" where
  "py_mul (Finite a) (Finite b) = fl (a * b)"
| "py_mul NaN y = NaN"
| "py_mul x NaN = NaN"
| "py_mul x y =
     (if x = Finite 0 \<or> y = Finite 0 then NaN
      else if is_neg x = is_neg y then PosInf else NegInf)"

fun py_sub :: "pyfloat \<Rightarrow> pyfloat \<Rightarrow> pyfloat" where
  "py_sub (Finite a) (Finite b) = fl (a - b)"
| "py_sub NaN y = NaN"
| "py_sub x NaN = NaN"
| "py_sub PosInf PosInf = NaN"
| "py_sub NegInf NegInf = NaN"
| "py_sub PosInf y = PosInf"
| "py_sub NegInf y = NegInf"
| "py_sub x PosInf = NegInf"
| "py_sub x NegInf = PosInf"

fun py_truediv :: "pyfloat \<Rightarrow> pyfloat \<Rightarrow> error + pyfloat" where
  "py_truediv x (Finite b) =
     (if b = 0 then Inl ZeroDivisionError
      else case x of
             Finite a \<Rightarrow> Inr (fl (a / b))
           | NaN \<Rightarrow> Inr NaN
           | _ \<Rightarrow> Inr (if is_neg x = (b < 0) then PosInf else NegInf))"
| "py_truediv x NaN = Inr NaN"
| "py_truediv (Finite a) y = Inr (Finite 0)"
| "py_truediv x y = Inr NaN"

fun py_ge :: "pyfloat \<Rightarrow> pyfloat \<Rightarrow> bool" where
  "py_ge (Finite a) (Finite b) = (b \<le> a)"
| "py_ge NaN y = False"
| "py_ge x NaN = False"
| "py_ge PosInf y = True"
| "py_ge x NegInf = True"
| "py_ge x y = False"

text \<open>\<open>x \<le> y\<close> on floats is \<^verbatim>\<open>y >= x\<close>, and \<open>0\<close> is the float \<^verbatim>\<open>0.0\<close>.\<close>

instantiation pyfloat :: "{zero, ord}"
begin

definition zero_pyfloat :: pyfloat where
  "zero_pyfloat = Finite 0"

definition less_eq_pyfloat :: "pyfloat \<Rightarrow> pyfloat \<Rightarrow> bool" where
  "less_eq_pyfloat x y = py_ge y x"

definition less_pyfloat :: "pyfloat \<Rightarrow> pyfloat \<Rightarrow> bool" where
  "less_pyfloat x y = (py_ge y x \<and> \<not> py_ge x y)"

instance ..

end

subsection \<open>Actuator selection\<close>

text \<open>
  An entry of the result list: the dictionary with the keys \<^verbatim>\<open>"actuator"\<close>,
  \<^verbatim>\<open>"capability"\<close> and \<^verbatim>\<open>"margin"\<close>.
\<close>

record Candidate =
  actuator :: Actuator
  capability :: real
  margin :: pyfloat

text \<open>
  The parameter \<^verbatim>\<open>supply_type=None\<close> is a \<open>string option\<close>. The source tests
  \<^verbatim>\<open>supply_type and supply_type != "Any"\<close>: \<^verbatim>\<open>None\<close> and the empty string are falsy.
\<close>

definition supply_filter_on :: "string option \<Rightarrow> bool" where
  "supply_filter_on supply_type =
     (case supply_type of None \<Rightarrow> False | Some s \<Rightarrow> s \<noteq> [] \<and> s \<noteq> ''Any'')"

text \<open>
  The body of the loop for one actuator: \<open>Inr None\<close> is \<^verbatim>\<open>continue\<close> (or the failed
  capability test), \<open>Inr (Some c)\<close> appends \<open>c\<close>, and \<open>Inl ZeroDivisionError\<close> is the
  division \<^verbatim>\<open>capability / (required_value * safety_factor)\<close> raising, which leaves the
  function. The first five tests compare stored values and involve no arithmetic; the threshold
  test and the margin are computed in floats.
\<close>

definition check_actuator ::
  "real \<Rightarrow> string \<Rightarrow> Valve \<Rightarrow> real \<Rightarrow> string option \<Rightarrow> Actuator \<Rightarrow> error + Candidate option" where
  "check_actuator required_value value_type valve safety_factor supply_type a =
     (if value_type = ''Torque (Nm)'' \<and> torque a = 0 then Inr None
      else if value_type = ''Thrust (N)'' \<and> thrust a = 0 then Inr None
      else if supply_filter_on supply_type \<and> Some (supply a) \<noteq> supply_type then Inr None
      else if Actuator.max_pressure a < Valve.max_pressure valve then Inr None
      else if Actuator.min_temp a > Valve.min_temp valve
              \<or> Actuator.max_temp a < Valve.max_temp valve then Inr None
      else
        (let capability = (if value_type = ''Torque (Nm)'' then torque a else thrust a) in
         if py_ge (Finite capability) (py_mul (Finite required_value) (Finite safety_factor)) then
           (case py_truediv (Finite capability)
                   (py_mul (Finite required_value) (Finite safety_factor)) of
              Inl e \<Rightarrow> Inl e
            | Inr ratio \<Rightarrow>
                Inr (Some (Candidate.make a capability
                             (py_mul (py_sub ratio (Finite 1)) (Finite 100)))))
         else Inr None))"

text \<open>The \<^verbatim>\<open>for\<close> loop over the catalogue, with the list \<^verbatim>\<open>suitable_actuators\<close> built so far.\<close>

fun for_actuators ::
  "real \<Rightarrow> string \<Rightarrow> Valve \<Rightarrow> real \<Rightarrow> string option \<Rightarrow> Actuator list \<Rightarrow> Candidate list
     \<Rightarrow> error + Candidate list" where
  "for_actuators required_value value_type valve safety_factor supply_type [] suitable_actuators =
     Inr suitable_actuators"
| "for_actuators required_value value_type valve safety_factor supply_type (a # rest)
     suitable_actuators =
     (case check_actuator required_value value_type valve safety_factor supply_type a of
        Inl e \<Rightarrow> Inl e
      | Inr None \<Rightarrow>
          for_actuators required_value value_type valve safety_factor supply_type rest
            suitable_actuators
      | Inr (Some c) \<Rightarrow>
          for_actuators required_value value_type valve safety_factor supply_type rest
            (suitable_actuators @ [c]))"

text \<open>
  \<^verbatim>\<open>list.sort(key=...)\<close> is a stable sort by the key, and so is \<open>sort_key\<close>; a stable
  sort of a list by a linearly ordered key has one result.
\<close>

definition find_suitable_actuators ::
  "real \<Rightarrow> string \<Rightarrow> Valve \<Rightarrow> real \<Rightarrow> string option \<Rightarrow> error + Candidate list" where
  "find_suitable_actuators required_value value_type valve safety_factor supply_type =
     (case for_actuators required_value value_type valve safety_factor supply_type
             ACTUATOR_DATABASE [] of
        Inl e \<Rightarrow> Inl e
      | Inr suitable_actuators \<Rightarrow> Inr (sort_key capability suitable_actuators))"

text \<open>
  What one actuator contributes to the list when its check does not raise: the candidate
  appended, or nothing.
\<close>

definition kept ::
  "real \<Rightarrow> string \<Rightarrow> Valve \<Rightarrow> real \<Rightarrow> string option \<Rightarrow> Actuator \<Rightarrow> Candidate list" where
  "kept r vt v sf st a =
     (case check_actuator r vt v sf st a of Inr (Some c) \<Rightarrow> [c] | _ \<Rightarrow> [])"

section \<open>Properties\<close>

subsection \<open>Rounding\<close>











subsection \<open>The loop and the result list\<close>

lemma kept_skip: "check_actuator r vt v sf st a = Inr None \<Longrightarrow> kept r vt v sf st a = []"
  by (simp add: kept_def)

lemma kept_append: "check_actuator r vt v sf st a = Inr (Some c) \<Longrightarrow> kept r vt v sf st a = [c]"
  by (simp add: kept_def)

lemma for_actuators_Inr:
  "for_actuators r vt v sf st db acc = Inr xs \<Longrightarrow>
     xs = acc @ concat (map (kept r vt v sf st) db)
     \<and> (\<forall>a \<in> set db. check_actuator r vt v sf st a \<noteq> Inl ZeroDivisionError)"
proof (induction db arbitrary: acc)
  case Nil
  then show ?case by simp
next
  case (Cons a db)
  show ?case
  proof (cases "check_actuator r vt v sf st a")
    case (Inl e)
    with Cons.prems show ?thesis by simp
  next
    case (Inr oc)
    show ?thesis
    proof (cases oc)
      case None
      with Inr Cons.prems have "for_actuators r vt v sf st db acc = Inr xs" by simp
      from Cons.IH [OF this] Inr None show ?thesis by (simp add: kept_skip)
    next
      case (Some c)
      with Inr Cons.prems have "for_actuators r vt v sf st db (acc @ [c]) = Inr xs" by simp
      from Cons.IH [OF this] Inr Some show ?thesis by (simp add: kept_append)
    qed
  qed
qed

lemma for_actuators_no_error:
  "\<forall>a \<in> set db. check_actuator r vt v sf st a \<noteq> Inl ZeroDivisionError \<Longrightarrow>
     for_actuators r vt v sf st db acc = Inr (acc @ concat (map (kept r vt v sf st) db))"
proof (induction db arbitrary: acc)
  case Nil
  then show ?case by simp
next
  case (Cons a db)
  then have IH: "\<And>acc. for_actuators r vt v sf st db acc
                   = Inr (acc @ concat (map (kept r vt v sf st) db))"
    by simp
  from Cons.prems have ne: "check_actuator r vt v sf st a \<noteq> Inl ZeroDivisionError" by simp
  show ?case
  proof (cases "check_actuator r vt v sf st a")
    case (Inl e)
    with ne show ?thesis by (cases e) simp
  next
    case (Inr oc)
    then show ?thesis by (cases oc) (simp_all add: IH kept_skip kept_append)
  qed
qed

lemma for_actuators_error:
  "a \<in> set db \<Longrightarrow> check_actuator r vt v sf st a = Inl ZeroDivisionError \<Longrightarrow>
     for_actuators r vt v sf st db acc = Inl ZeroDivisionError"
proof (induction db arbitrary: acc)
  case Nil
  then show ?case by simp
next
  case (Cons b db)
  show ?case
  proof (cases "check_actuator r vt v sf st b")
    case (Inl e)
    then show ?thesis by (cases e) simp
  next
    case (Inr oc)
    with Cons.prems have "a \<in> set db" by auto
    from Cons.IH [OF this Cons.prems(2)] Inr show ?thesis by (cases oc) simp_all
  qed
qed

lemma find_suitable_Inr:
  "find_suitable_actuators r vt v sf st = Inr xs \<Longrightarrow>
     xs = sort_key capability (concat (map (kept r vt v sf st) ACTUATOR_DATABASE))
     \<and> (\<forall>a \<in> set ACTUATOR_DATABASE. check_actuator r vt v sf st a \<noteq> Inl ZeroDivisionError)"
  unfolding find_suitable_actuators_def
  by (auto split: sum.splits dest!: for_actuators_Inr)

lemma check_actuator_Some:
  "check_actuator r vt v sf st a = Inr (Some c) \<Longrightarrow>
     actuator c = a
     \<and> capability c = (if vt = ''Torque (Nm)'' then torque a else thrust a)
     \<and> py_ge (Finite (capability c)) (py_mul (Finite r) (Finite sf))
     \<and> (\<exists>q. py_truediv (Finite (capability c)) (py_mul (Finite r) (Finite sf)) = Inr q
              \<and> margin c = py_mul (py_sub q (Finite 1)) (Finite 100))
     \<and> (vt = ''Torque (Nm)'' \<longrightarrow> torque a \<noteq> 0)
     \<and> (vt = ''Thrust (N)'' \<longrightarrow> thrust a \<noteq> 0)
     \<and> (supply_filter_on st \<longrightarrow> st = Some (supply a))
     \<and> Valve.max_pressure v \<le> Actuator.max_pressure a
     \<and> Actuator.min_temp a \<le> Valve.min_temp v
     \<and> Valve.max_temp v \<le> Actuator.max_temp a"
  unfolding check_actuator_def Let_def
  by (auto simp: Candidate.make_def split: if_splits sum.splits)

lemma find_suitable_mem:
  assumes "find_suitable_actuators r vt v sf st = Inr xs" and "c \<in> set xs"
  shows "\<exists>a \<in> set ACTUATOR_DATABASE. check_actuator r vt v sf st a = Inr (Some c)"
proof -
  from find_suitable_Inr [OF assms(1)] assms(2)
  have "c \<in> set (concat (map (kept r vt v sf st) ACTUATOR_DATABASE))" by simp
  then obtain a where "a \<in> set ACTUATOR_DATABASE" and "c \<in> set (kept r vt v sf st a)" by auto
  then show ?thesis
    by (auto simp: kept_def split: sum.splits option.splits)
qed

text \<open>
  Whatever the list of candidates is, a call that returns a list returns no candidate when the
  denominator of the margin is zero: it cannot have passed the division.
\<close>

lemma zero_requirement_returns_nothing:
  assumes "find_suitable_actuators required_value value_type valve safety_factor supply_type
             = Inr xs"
      and "required_value * safety_factor = 0"
  shows "xs = []"
proof (rule ccontr)
  assume "xs \<noteq> []"
  then obtain c where "c \<in> set xs" by (cases xs) auto
  from find_suitable_mem [OF assms(1) this] obtain a where
    "check_actuator required_value value_type valve safety_factor supply_type a = Inr (Some c)"
    by blast
  from check_actuator_Some [OF this] obtain q where
    "py_truediv (Finite (capability c)) (py_mul (Finite required_value) (Finite safety_factor))
       = Inr q"
    by blast
  with assms(2) show False by (simp add: fl_def)
qed

subsection \<open>Ties and the supply filter\<close>

lemma kept_cases:
  "kept r vt v sf st a = []
   \<or> (\<exists>c. kept r vt v sf st a = [c] \<and> check_actuator r vt v sf st a = Inr (Some c))"
  by (simp add: kept_def split: sum.splits option.splits)

lemma ties_in_catalogue_order:
  "map actuator (filter (\<lambda>c. capability c = k) (concat (map (kept r vt v sf st) db)))
     = filter (\<lambda>a. kept r vt v sf st a \<noteq> []
                  \<and> (if vt = ''Torque (Nm)'' then torque a else thrust a) = k) db"
proof (induction db)
  case Nil
  show ?case by simp
next
  case (Cons a db)
  from kept_cases [of r vt v sf st a] show ?case
  proof
    assume "kept r vt v sf st a = []"
    with Cons.IH show ?thesis by simp
  next
    assume "\<exists>c. kept r vt v sf st a = [c] \<and> check_actuator r vt v sf st a = Inr (Some c)"
    then obtain c where k: "kept r vt v sf st a = [c]"
      and chk: "check_actuator r vt v sf st a = Inr (Some c)" by blast
    from check_actuator_Some [OF chk]
    have "actuator c = a"
      and "capability c = (if vt = ''Torque (Nm)'' then torque a else thrust a)" by simp_all
    with k Cons.IH show ?thesis by simp
  qed
qed

lemma selected_actuators:
  "actuator ` set (concat (map (kept r vt v sf st) db))
     = {a \<in> set db. kept r vt v sf st a \<noteq> []}"
proof (induction db)
  case Nil
  show ?case by simp
next
  case (Cons a db)
  from kept_cases [of r vt v sf st a] show ?case
  proof
    assume "kept r vt v sf st a = []"
    with Cons.IH show ?thesis by auto
  next
    assume "\<exists>c. kept r vt v sf st a = [c] \<and> check_actuator r vt v sf st a = Inr (Some c)"
    then obtain c where k: "kept r vt v sf st a = [c]"
      and chk: "check_actuator r vt v sf st a = Inr (Some c)" by blast
    from check_actuator_Some [OF chk] have "actuator c = a" by simp
    with k Cons.IH show ?thesis by auto
  qed
qed

lemma check_actuator_supply:
  assumes "s \<noteq> []" and "s \<noteq> ''Any''"
  shows "check_actuator r vt v sf (Some s) a
           = (if supply a = s then check_actuator r vt v sf None a else Inr None)"
  using assms by (simp add: check_actuator_def supply_filter_on_def)

lemma check_actuator_no_filter:
  assumes "\<not> supply_filter_on st"
  shows "check_actuator r vt v sf st a = check_actuator r vt v sf None a"
  using assms by (simp add: check_actuator_def supply_filter_on_def)

lemma for_actuators_no_filter:
  assumes "\<not> supply_filter_on st"
  shows "for_actuators r vt v sf st db acc = for_actuators r vt v sf None db acc"
  by (induction db arbitrary: acc)
    (simp_all add: check_actuator_no_filter [OF assms] split: sum.splits option.splits)

lemma kept_supply:
  assumes "s \<noteq> []" and "s \<noteq> ''Any''"
  shows "kept r vt v sf (Some s) a
           = filter (\<lambda>c. supply (actuator c) = s) (kept r vt v sf None a)"
proof (cases "supply a = s")
  case False
  then have "kept r vt v sf (Some s) a = []"
    by (simp add: kept_def check_actuator_supply [OF assms])
  moreover from kept_cases [of r vt v sf None a] False
  have "filter (\<lambda>c. supply (actuator c) = s) (kept r vt v sf None a) = []"
    by (auto dest: check_actuator_Some)
  ultimately show ?thesis by simp
next
  case True
  then have "kept r vt v sf (Some s) a = kept r vt v sf None a"
    by (simp add: kept_def check_actuator_supply [OF assms])
  moreover from kept_cases [of r vt v sf None a] True
  have "filter (\<lambda>c. supply (actuator c) = s) (kept r vt v sf None a) = kept r vt v sf None a"
    by (auto dest: check_actuator_Some)
  ultimately show ?thesis by simp
qed

subsection \<open>Evaluating the catalogue and the formulas\<close>

lemmas catalogue_eval = find_suitable_actuators_def ACTUATOR_DATABASE_def VALVE_DATABASE_def
  check_actuator_def supply_filter_on_def Actuator.make_def Valve.make_def Candidate.make_def
  Let_def

lemmas float_eval = fl_def exponent_def round_half_even_def pow2_def bit_length.simps

lemmas calc_eval = calculate_valve_torque_thrust_def calculate_ball_valve_torque_def
  calculate_gate_valve_thrust_def get_area_def get_seal_friction_def SEAL_FRICTION_def
  VALVE_DATABASE_def Valve.make_def Let_def

section \<open>The claims\<close>

text \<open>
  C1, as the claim states it: every returned candidate has a capability of at least
  \<open>required_value * safety_factor\<close>. The source compares the capability with the product
  as Python computes it, a double. For the 10-inch Diaphragm valve, a requirement of
  13333.333333333334 (the double \<open>7330077518506667 / 2\<^sup>3\<^sup>9\<close>) and a safety factor of 1.5
  the product rounds to 20000, so actuator H-150 of capability 20000 is returned, while the
  exact product is larger than 20000.
\<close>

theorem rounded_threshold_admits_smaller:
  "find_suitable_actuators (7330077518506667 / 549755813888) ''Thrust (N)''
       (VALVE_DATABASE ! 7) 1.5 (Some ''Any'')
     = Inr [Candidate.make (ACTUATOR_DATABASE ! 9) 20000 (Finite 0),
            Candidate.make (ACTUATOR_DATABASE ! 6) 25000 (Finite 25)]
   \<and> capability (Candidate.make (ACTUATOR_DATABASE ! 9) 20000 (Finite 0))
       < 7330077518506667 / 549755813888 * 1.5"
  by (simp add: catalogue_eval float_eval)

text \<open>
  C1, amended. Every candidate that \<open>find_suitable_actuators\<close> returns refers to an
  actuator of the catalogue that (i) has a non-zero rated torque when the unit type is
  \<open>Torque (Nm)\<close> and a non-zero rated thrust when it is \<open>Thrust (N)\<close>, (ii) has a maximum
  pressure at least the valve's maximum rated pressure, (iii) has a minimum temperature at most
  the valve's minimum rated temperature and a maximum temperature at least the valve's maximum
  rated temperature, and (iv) has a capability, its rated torque for \<open>Torque (Nm)\<close> and its
  rated thrust otherwise, of at least the double-precision product
  \<open>required_value * safety_factor\<close>, that is the exact product rounded to the nearest
  double; for every required value, valve, safety factor and supply filter.
\<close>

theorem candidates_pass_all_checks_rounded:
  assumes "find_suitable_actuators required_value value_type valve safety_factor supply_type
             = Inr xs"
      and "c \<in> set xs"
  shows "actuator c \<in> set ACTUATOR_DATABASE
     \<and> (value_type = ''Torque (Nm)'' \<longrightarrow> torque (actuator c) \<noteq> 0)
     \<and> (value_type = ''Thrust (N)'' \<longrightarrow> thrust (actuator c) \<noteq> 0)
     \<and> Valve.max_pressure valve \<le> Actuator.max_pressure (actuator c)
     \<and> Actuator.min_temp (actuator c) \<le> Valve.min_temp valve
     \<and> Valve.max_temp valve \<le> Actuator.max_temp (actuator c)
     \<and> capability c = (if value_type = ''Torque (Nm)'' then torque (actuator c)
                       else thrust (actuator c))
     \<and> py_mul (Finite required_value) (Finite safety_factor) \<le> Finite (capability c)"
proof -
  from find_suitable_mem [OF assms] obtain a where
    a: "a \<in> set ACTUATOR_DATABASE"
    and chk: "check_actuator required_value value_type valve safety_factor supply_type a
                = Inr (Some c)"
    by blast
  from check_actuator_Some [OF chk]
  have ac: "actuator c = a"
    and cap: "capability c = (if value_type = ''Torque (Nm)'' then torque a else thrust a)"
    and ge: "py_ge (Finite (capability c))
               (py_mul (Finite required_value) (Finite safety_factor))"
    and motion: "value_type = ''Torque (Nm)'' \<longrightarrow> torque a \<noteq> 0"
      "value_type = ''Thrust (N)'' \<longrightarrow> thrust a \<noteq> 0"
    and fits: "Valve.max_pressure valve \<le> Actuator.max_pressure a"
      "Actuator.min_temp a \<le> Valve.min_temp valve"
      "Valve.max_temp valve \<le> Actuator.max_temp a"
    by blast+
  from ge have "py_mul (Finite required_value) (Finite safety_factor) \<le> Finite (capability c)"
    by (simp only: less_eq_pyfloat_def)
  with a cap motion fits show ?thesis unfolding ac by blast
qed

theorem candidates_pass_all_checks_rounded_witness:
  "find_suitable_actuators 10000 ''Thrust (N)'' (VALVE_DATABASE ! 7) 1.25 (Some ''Hydraulic'')
     = Inr [Candidate.make (ACTUATOR_DATABASE ! 5) 15000
              (Finite (5629499534213119 / 281474976710656)),
            Candidate.make (ACTUATOR_DATABASE ! 9) 20000
              (Finite (8444249301319681 / 140737488355328)),
            Candidate.make (ACTUATOR_DATABASE ! 6) 25000 (Finite 100)]
   \<and> thrust (ACTUATOR_DATABASE ! 9) \<noteq> 0
   \<and> Valve.max_pressure (VALVE_DATABASE ! 7) \<le> Actuator.max_pressure (ACTUATOR_DATABASE ! 9)
   \<and> Actuator.min_temp (ACTUATOR_DATABASE ! 9) \<le> Valve.min_temp (VALVE_DATABASE ! 7)
   \<and> Valve.max_temp (VALVE_DATABASE ! 7) \<le> Actuator.max_temp (ACTUATOR_DATABASE ! 9)
   \<and> py_mul (Finite 10000) (Finite 1.25) \<le> Finite (thrust (ACTUATOR_DATABASE ! 9))
   \<and> py_mul (Finite 10000) (Finite 1.25) = Finite 12500"
proof -
  let ?c = "Candidate.make (ACTUATOR_DATABASE ! 9) 20000
              (Finite (8444249301319681 / 140737488355328))"
  have run: "find_suitable_actuators 10000 ''Thrust (N)'' (VALVE_DATABASE ! 7) 1.25
               (Some ''Hydraulic'')
     = Inr [Candidate.make (ACTUATOR_DATABASE ! 5) 15000
              (Finite (5629499534213119 / 281474976710656)),
            ?c,
            Candidate.make (ACTUATOR_DATABASE ! 6) 25000 (Finite 100)]"
    by (simp add: catalogue_eval float_eval)
  have mem: "?c \<in> set [Candidate.make (ACTUATOR_DATABASE ! 5) 15000
              (Finite (5629499534213119 / 281474976710656)),
            ?c,
            Candidate.make (ACTUATOR_DATABASE ! 6) 25000 (Finite 100)]"
    by simp
  have prod: "py_mul (Finite 10000) (Finite 1.25) = Finite 12500"
    by (simp add: float_eval)
  from candidates_pass_all_checks_rounded [OF run mem] run prod show ?thesis
    by (simp add: Candidate.make_def)
qed

text \<open>
  C2. For a valve of type Ball or Plug, \<open>calculate_valve_torque_thrust\<close> returns
  \<open>size * pressure * 0.8 * (1 + max 0 (temperature - 100) * 0.005) * seat_factor\<close> with the
  label \<open>Torque (Nm)\<close>, where the seat factor is 1.3 for Metal, 1.1 for Graphite and 1
  otherwise. The 2-inch PTFE Ball valve at 100 bar and 20 degrees gives 160, and the same valve
  with a Metal seat gives 208.
\<close>

theorem ball_plug_requirement:
  "(type valve = ''Ball'' \<or> type valve = ''Plug'' \<longrightarrow>
      calculate_valve_torque_thrust valve pressure_bar temperature_c =
        (size_inch valve * pressure_bar * 0.8 * (1 + max 0 (temperature_c - 100) * 0.005)
           * (if seat_material valve = ''Metal'' then 1.3
              else if seat_material valve = ''Graphite'' then 1.1 else 1.0),
         ''Torque (Nm)''))
   \<and> calculate_valve_torque_thrust (Valve.make 2 ''Ball'' 600 ''PTFE'' 20 100 0 200 (-20)) 100 20
       = (160, ''Torque (Nm)'')
   \<and> calculate_valve_torque_thrust (Valve.make 2 ''Ball'' 600 ''Metal'' 20 100 0 200 (-20)) 100 20
       = (208, ''Torque (Nm)'')"
proof (intro conjI impI)
  assume "type valve = ''Ball'' \<or> type valve = ''Plug''"
  then show "calculate_valve_torque_thrust valve pressure_bar temperature_c =
        (size_inch valve * pressure_bar * 0.8 * (1 + max 0 (temperature_c - 100) * 0.005)
           * (if seat_material valve = ''Metal'' then 1.3
              else if seat_material valve = ''Graphite'' then 1.1 else 1.0),
         ''Torque (Nm)'')"
    by (auto simp: calculate_valve_torque_thrust_def calculate_ball_valve_torque_def Let_def
        max_def)
next
  show "calculate_valve_torque_thrust (Valve.make 2 ''Ball'' 600 ''PTFE'' 20 100 0 200 (-20)) 100 20
       = (160, ''Torque (Nm)'')"
    by (simp add: calc_eval)
next
  show "calculate_valve_torque_thrust (Valve.make 2 ''Ball'' 600 ''Metal'' 20 100 0 200 (-20)) 100 20
       = (208, ''Torque (Nm)'')"
    by (simp add: calc_eval)
qed

theorem ball_plug_requirement_witness:
  "type (VALVE_DATABASE ! 6) = ''Plug''
   \<and> calculate_valve_torque_thrust (VALVE_DATABASE ! 6) 50 150 = (100, ''Torque (Nm)'')"
proof -
  have ty: "type (VALVE_DATABASE ! 6) = ''Ball'' \<or> type (VALVE_DATABASE ! 6) = ''Plug''"
    by (simp add: VALVE_DATABASE_def Valve.make_def)
  from ball_plug_requirement [of "VALVE_DATABASE ! 6" 50 150] ty
  have "calculate_valve_torque_thrust (VALVE_DATABASE ! 6) 50 150 =
        (size_inch (VALVE_DATABASE ! 6) * 50 * 0.8 * (1 + max 0 (150 - 100) * 0.005)
           * (if seat_material (VALVE_DATABASE ! 6) = ''Metal'' then 1.3
              else if seat_material (VALVE_DATABASE ! 6) = ''Graphite'' then 1.1 else 1.0),
         ''Torque (Nm)'')"
    by blast
  then show ?thesis by (simp add: VALVE_DATABASE_def Valve.make_def)
qed

text \<open>
  C3. With \<open>required_value = 0\<close> and a positive safety factor the claim is that the
  selector returns every actuator that passes the motion-type, supply, pressure and temperature
  checks, with an undefined or infinite margin. The source divides by
  \<open>required_value * safety_factor\<close> for the first such actuator, and Python raises
  \<^verbatim>\<open>ZeroDivisionError\<close> there: for the 10-inch Diaphragm valve of the catalogue at a
  requirement of 0 (what an operating pressure of 0 bar gives), actuator F10 passes every check
  and the call raises.
\<close>

theorem zero_requirement_raises:
  "find_suitable_actuators 0 ''Thrust (N)'' (VALVE_DATABASE ! 7) 1.25 (Some ''Any'')
     = Inl ZeroDivisionError"
  by (simp add: catalogue_eval float_eval)

text \<open>
  C4, as the claim states it: the stored margin is
  \<open>(capability / (required_value * safety_factor) - 1) * 100\<close>, and so
  \<open>capability = required_value * safety_factor * (1 + margin / 100)\<close>. The source stores
  the margin that Python computes, each of the four operations rounded to a double, and the
  equations hold up to that rounding only. For the 6-inch Butterfly valve of the catalogue with
  the requirement 99.20433458271873 (the double \<open>13634539924935 / 2\<^sup>3\<^sup>7\<close>, what the valve
  needs at 15 bar) and a safety factor of 1.25, actuator IQT-300 of capability 3000 is stored
  with the margin 2319.249128674743 (the double \<open>5100082769374473 / 2\<^sup>4\<^sup>1\<close>). That is not
  the exact value of the formula, the exact value of
  \<open>required_value * safety_factor * (1 + margin / 100)\<close> is not 3000, and the same expression
  in double precision is 2999.9999999999995.
\<close>

theorem stored_margin_is_rounded:
  "find_suitable_actuators (13634539924935 / 137438953472) ''Torque (Nm)''
       (VALVE_DATABASE ! 2) 1.25 (Some ''Any'')
     = Inr [Candidate.make (ACTUATOR_DATABASE ! 2) 3000
              (Finite (5100082769374473 / 2199023255552))]
   \<and> (5100082769374473 / 2199023255552 :: real)
       \<noteq> (3000 / (13634539924935 / 137438953472 * 1.25) - 1) * 100
   \<and> (3000 :: real)
       \<noteq> 13634539924935 / 137438953472 * 1.25 * (1 + 5100082769374473 / 2199023255552 / 100)
   \<and> py_truediv (Finite (5100082769374473 / 2199023255552)) (Finite 100)
       = Inr (Finite (6528105944799325 / 281474976710656))
   \<and> fl (1 + 6528105944799325 / 281474976710656)
       = Finite (6809580921509981 / 281474976710656)
   \<and> py_mul (py_mul (Finite (13634539924935 / 137438953472)) (Finite 1.25))
         (Finite (6809580921509981 / 281474976710656))
       = Finite (6597069766655999 / 2199023255552)
   \<and> (6597069766655999 / 2199023255552 :: real) < 3000"
  by (simp add: catalogue_eval float_eval)

text \<open>
  C4, amended. For every returned candidate the stored margin is the value of
  \<^verbatim>\<open>(capability / (required_value * safety_factor) - 1) * 100\<close> in double precision: the
  product, the quotient, the difference and the product with 100 are each rounded to the
  nearest double. The division does not raise for a returned candidate. The equation
  \<open>capability = required_value * safety_factor * (1 + margin / 100)\<close> holds up to this
  rounding only and is not part of the statement.
\<close>

theorem margin_formula_in_doubles:
  assumes "find_suitable_actuators required_value value_type valve safety_factor supply_type
             = Inr xs"
      and "c \<in> set xs"
  shows "\<exists>q. py_truediv (Finite (capability c))
               (py_mul (Finite required_value) (Finite safety_factor)) = Inr q
            \<and> margin c = py_mul (py_sub q (Finite 1)) (Finite 100)"
proof -
  from find_suitable_mem [OF assms] obtain a where
    "check_actuator required_value value_type valve safety_factor supply_type a = Inr (Some c)"
    by blast
  from check_actuator_Some [OF this] show ?thesis by blast
qed

theorem margin_formula_in_doubles_witness:
  "find_suitable_actuators 10000 ''Thrust (N)'' (VALVE_DATABASE ! 7) 1.25 None
     = Inr [Candidate.make (ACTUATOR_DATABASE ! 5) 15000
              (Finite (5629499534213119 / 281474976710656)),
            Candidate.make (ACTUATOR_DATABASE ! 9) 20000
              (Finite (8444249301319681 / 140737488355328)),
            Candidate.make (ACTUATOR_DATABASE ! 6) 25000 (Finite 100)]
   \<and> py_truediv (Finite 15000) (py_mul (Finite 10000) (Finite 1.25))
       = Inr (Finite (5404319552844595 / 4503599627370496))
   \<and> py_mul (py_sub (Finite (5404319552844595 / 4503599627370496)) (Finite 1)) (Finite 100)
       = Finite (5629499534213119 / 281474976710656)
   \<and> (\<exists>q. py_truediv (Finite 15000) (py_mul (Finite 10000) (Finite 1.25)) = Inr q
            \<and> Finite (5629499534213119 / 281474976710656)
                = py_mul (py_sub q (Finite 1)) (Finite 100))"
proof -
  let ?c = "Candidate.make (ACTUATOR_DATABASE ! 5) 15000
              (Finite (5629499534213119 / 281474976710656))"
  have run: "find_suitable_actuators 10000 ''Thrust (N)'' (VALVE_DATABASE ! 7) 1.25 None
     = Inr [?c,
            Candidate.make (ACTUATOR_DATABASE ! 9) 20000
              (Finite (8444249301319681 / 140737488355328)),
            Candidate.make (ACTUATOR_DATABASE ! 6) 25000 (Finite 100)]"
    by (simp add: catalogue_eval float_eval)
  have mem: "?c \<in> set [?c,
            Candidate.make (ACTUATOR_DATABASE ! 9) 20000
              (Finite (8444249301319681 / 140737488355328)),
            Candidate.make (ACTUATOR_DATABASE ! 6) 25000 (Finite 100)]"
    by simp
  have quot: "py_truediv (Finite 15000) (py_mul (Finite 10000) (Finite 1.25))
       = Inr (Finite (5404319552844595 / 4503599627370496))"
    by (simp add: float_eval)
  have marg: "py_mul (py_sub (Finite (5404319552844595 / 4503599627370496)) (Finite 1))
                (Finite 100)
       = Finite (5629499534213119 / 281474976710656)"
    by (simp add: float_eval)
  from margin_formula_in_doubles [OF run mem]
  have "\<exists>q. py_truediv (Finite 15000) (py_mul (Finite 10000) (Finite 1.25)) = Inr q
            \<and> Finite (5629499534213119 / 281474976710656)
                = py_mul (py_sub q (Finite 1)) (Finite 100)"
    by (simp only: Candidate.make_def Candidate.simps)
  with run quot marg show ?thesis by blast
qed

text \<open>
  C5. The returned list is sorted by capability, in non-decreasing order, and the candidates of
  equal capability are in the order of their actuators in the catalogue: for each value \<open>k\<close>,
  the actuators of the candidates of capability \<open>k\<close>, read in the order of the result, are
  the selected actuators of capability \<open>k\<close>, read in the order of the catalogue. The two
  facts fix the order of the result from the capabilities and the catalogue positions alone;
  the price has no part in it.
\<close>

theorem result_sorted_stable:
  assumes "find_suitable_actuators required_value value_type valve safety_factor supply_type
             = Inr xs"
  shows "sorted (map capability xs)
     \<and> (\<forall>k. map actuator (filter (\<lambda>c. capability c = k) xs)
            = filter (\<lambda>a. a \<in> actuator ` set xs
                         \<and> (if value_type = ''Torque (Nm)'' then torque a else thrust a) = k)
                ACTUATOR_DATABASE)"
proof -
  let ?kept = "kept required_value value_type valve safety_factor supply_type"
  let ?ys = "concat (map ?kept ACTUATOR_DATABASE)"
  from find_suitable_Inr [OF assms] have xs: "xs = sort_key capability ?ys" by simp
  have sel: "actuator ` set xs = {a \<in> set ACTUATOR_DATABASE. ?kept a \<noteq> []}"
    by (simp only: xs set_sort selected_actuators)
  have "map actuator (filter (\<lambda>c. capability c = k) xs)
          = filter (\<lambda>a. a \<in> actuator ` set xs
                       \<and> (if value_type = ''Torque (Nm)'' then torque a else thrust a) = k)
              ACTUATOR_DATABASE" for k
  proof -
    have "filter (\<lambda>c. capability c = k) xs = filter (\<lambda>c. capability c = k) ?ys"
      unfolding xs by (rule sort_key_stable)
    then have "map actuator (filter (\<lambda>c. capability c = k) xs)
        = filter (\<lambda>a. ?kept a \<noteq> []
              \<and> (if value_type = ''Torque (Nm)'' then torque a else thrust a) = k)
            ACTUATOR_DATABASE"
      by (simp only: ties_in_catalogue_order)
    also have "\<dots> = filter (\<lambda>a. a \<in> actuator ` set xs
                       \<and> (if value_type = ''Torque (Nm)'' then torque a else thrust a) = k)
              ACTUATOR_DATABASE"
      by (rule filter_cong [OF refl]) (simp add: sel)
    finally show ?thesis .
  qed
  moreover have "sorted (map capability xs)"
    unfolding xs by (rule sorted_sort_key)
  ultimately show ?thesis by blast
qed

theorem result_sorted_stable_witness:
  "find_suitable_actuators 160 ''Torque (Nm)''
       (Valve.make 2 ''Ball'' 600 ''PTFE'' 20 100 0 100 (-20)) 1.25 None
     = Inr [Candidate.make (ACTUATOR_DATABASE ! 0) 1000 (Finite 400),
            Candidate.make (ACTUATOR_DATABASE ! 3) 2000 (Finite 900),
            Candidate.make (ACTUATOR_DATABASE ! 7) 2000 (Finite 900),
            Candidate.make (ACTUATOR_DATABASE ! 2) 3000 (Finite 1400),
            Candidate.make (ACTUATOR_DATABASE ! 1) 5000 (Finite 2400),
            Candidate.make (ACTUATOR_DATABASE ! 4) 8000 (Finite 3900),
            Candidate.make (ACTUATOR_DATABASE ! 8) 10000 (Finite 4900)]
   \<and> sorted (map capability
        [Candidate.make (ACTUATOR_DATABASE ! 0) 1000 (Finite 400),
         Candidate.make (ACTUATOR_DATABASE ! 3) 2000 (Finite 900),
         Candidate.make (ACTUATOR_DATABASE ! 7) 2000 (Finite 900),
         Candidate.make (ACTUATOR_DATABASE ! 2) 3000 (Finite 1400),
         Candidate.make (ACTUATOR_DATABASE ! 1) 5000 (Finite 2400),
         Candidate.make (ACTUATOR_DATABASE ! 4) 8000 (Finite 3900),
         Candidate.make (ACTUATOR_DATABASE ! 8) 10000 (Finite 4900)])
   \<and> filter (\<lambda>a. a \<in> actuator ` set
        [Candidate.make (ACTUATOR_DATABASE ! 0) 1000 (Finite 400),
         Candidate.make (ACTUATOR_DATABASE ! 3) 2000 (Finite 900),
         Candidate.make (ACTUATOR_DATABASE ! 7) 2000 (Finite 900),
         Candidate.make (ACTUATOR_DATABASE ! 2) 3000 (Finite 1400),
         Candidate.make (ACTUATOR_DATABASE ! 1) 5000 (Finite 2400),
         Candidate.make (ACTUATOR_DATABASE ! 4) 8000 (Finite 3900),
         Candidate.make (ACTUATOR_DATABASE ! 8) 10000 (Finite 4900)]
          \<and> (if ''Torque (Nm)'' = ''Torque (Nm)'' then torque a else thrust a) = 2000)
        ACTUATOR_DATABASE
       = [ACTUATOR_DATABASE ! 3, ACTUATOR_DATABASE ! 7]"
proof -
  let ?xs = "[Candidate.make (ACTUATOR_DATABASE ! 0) 1000 (Finite 400),
         Candidate.make (ACTUATOR_DATABASE ! 3) 2000 (Finite 900),
         Candidate.make (ACTUATOR_DATABASE ! 7) 2000 (Finite 900),
         Candidate.make (ACTUATOR_DATABASE ! 2) 3000 (Finite 1400),
         Candidate.make (ACTUATOR_DATABASE ! 1) 5000 (Finite 2400),
         Candidate.make (ACTUATOR_DATABASE ! 4) 8000 (Finite 3900),
         Candidate.make (ACTUATOR_DATABASE ! 8) 10000 (Finite 4900)]"
  have run: "find_suitable_actuators 160 ''Torque (Nm)''
       (Valve.make 2 ''Ball'' 600 ''PTFE'' 20 100 0 100 (-20)) 1.25 None = Inr ?xs"
    by (simp add: catalogue_eval float_eval)
  from result_sorted_stable [OF run]
  have srt: "sorted (map capability ?xs)"
    and ties: "map actuator (filter (\<lambda>c. capability c = 2000) ?xs)
       = filter (\<lambda>a. a \<in> actuator ` set ?xs
          \<and> (if ''Torque (Nm)'' = ''Torque (Nm)'' then torque a else thrust a) = 2000)
        ACTUATOR_DATABASE"
    by blast+
  have "map actuator (filter (\<lambda>c. capability c = 2000) ?xs)
          = [ACTUATOR_DATABASE ! 3, ACTUATOR_DATABASE ! 7]"
    by (simp add: Candidate.make_def)
  with ties have "filter (\<lambda>a. a \<in> actuator ` set ?xs
          \<and> (if ''Torque (Nm)'' = ''Torque (Nm)'' then torque a else thrust a) = 2000)
        ACTUATOR_DATABASE = [ACTUATOR_DATABASE ! 3, ACTUATOR_DATABASE ! 7]"
    by simp
  with run srt show ?thesis by blast
qed

text \<open>
  C6, as the claim states it: a supply-type argument \<open>any\<close> in lower case means no
  filtering. The source compares with \<open>Any\<close>, so \<open>any\<close> is taken as the name of a
  supply type, which no actuator of the catalogue has.
\<close>

theorem lowercase_any_filters:
  "find_suitable_actuators 10000 ''Thrust (N)'' (VALVE_DATABASE ! 7) 1.25 (Some ''any'') = Inr []
   \<and> find_suitable_actuators 10000 ''Thrust (N)'' (VALVE_DATABASE ! 7) 1.25 None
       = Inr [Candidate.make (ACTUATOR_DATABASE ! 5) 15000
              (Finite (5629499534213119 / 281474976710656)),
              Candidate.make (ACTUATOR_DATABASE ! 9) 20000
              (Finite (8444249301319681 / 140737488355328)),
              Candidate.make (ACTUATOR_DATABASE ! 6) 25000 (Finite 100)]"
  by (simp add: catalogue_eval float_eval)

text \<open>
  C6, amended. When the supply-type argument is absent, the empty string or \<open>Any\<close>, the
  result is that of the call without the argument. For any other string \<open>s\<close>, when the
  call without the argument returns a list, the call with \<open>s\<close> returns the candidates of
  that list whose actuator has the supply type \<open>s\<close>, in the same order and with the same
  capabilities and margins.
\<close>

theorem supply_filter_effect:
  "(supply_type = None \<or> supply_type = Some [] \<or> supply_type = Some ''Any'' \<longrightarrow>
      find_suitable_actuators required_value value_type valve safety_factor supply_type
        = find_suitable_actuators required_value value_type valve safety_factor None)
   \<and> (s \<noteq> [] \<and> s \<noteq> ''Any''
        \<and> find_suitable_actuators required_value value_type valve safety_factor None = Inr xs \<longrightarrow>
      find_suitable_actuators required_value value_type valve safety_factor (Some s)
        = Inr (filter (\<lambda>c. supply (actuator c) = s) xs))"
proof (intro conjI impI)
  assume "supply_type = None \<or> supply_type = Some [] \<or> supply_type = Some ''Any''"
  then have "\<not> supply_filter_on supply_type"
    by (auto simp: supply_filter_on_def)
  then show "find_suitable_actuators required_value value_type valve safety_factor supply_type
        = find_suitable_actuators required_value value_type valve safety_factor None"
    by (simp add: find_suitable_actuators_def for_actuators_no_filter)
next
  let ?P = "\<lambda>c. supply (actuator c) = s"
  let ?chk = "check_actuator required_value value_type valve safety_factor"
  let ?kept = "kept required_value value_type valve safety_factor"
  assume "s \<noteq> [] \<and> s \<noteq> ''Any''
        \<and> find_suitable_actuators required_value value_type valve safety_factor None = Inr xs"
  then have s: "s \<noteq> []" "s \<noteq> ''Any''"
    and run: "find_suitable_actuators required_value value_type valve safety_factor None = Inr xs"
    by simp_all
  from find_suitable_Inr [OF run]
  have xs: "xs = sort_key capability (concat (map (?kept None) ACTUATOR_DATABASE))"
    and ok: "\<forall>a \<in> set ACTUATOR_DATABASE. ?chk None a \<noteq> Inl ZeroDivisionError"
    by simp_all
  from ok have "\<forall>a \<in> set ACTUATOR_DATABASE. ?chk (Some s) a \<noteq> Inl ZeroDivisionError"
    by (simp add: check_actuator_supply [OF s])
  from for_actuators_no_error [OF this]
  have "find_suitable_actuators required_value value_type valve safety_factor (Some s)
          = Inr (sort_key capability (concat (map (?kept (Some s)) ACTUATOR_DATABASE)))"
    by (simp add: find_suitable_actuators_def)
  also have "concat (map (?kept (Some s)) ACTUATOR_DATABASE)
          = filter ?P (concat (map (?kept None) ACTUATOR_DATABASE))"
  proof -
    have "?kept (Some s) = (\<lambda>a. filter ?P (?kept None a))"
      by (rule ext) (rule kept_supply [OF s])
    then show ?thesis by (simp add: filter_concat comp_def)
  qed
  also have "sort_key capability (filter ?P (concat (map (?kept None) ACTUATOR_DATABASE)))
          = filter ?P xs"
    unfolding xs by (rule filter_sort [symmetric])
  finally show "find_suitable_actuators required_value value_type valve safety_factor (Some s)
        = Inr (filter ?P xs)" .
qed

theorem supply_filter_effect_witness:
  "find_suitable_actuators 160 ''Torque (Nm)''
       (Valve.make 2 ''Ball'' 600 ''PTFE'' 20 100 0 100 (-20)) 1.25 (Some ''Any'')
     = find_suitable_actuators 160 ''Torque (Nm)''
         (Valve.make 2 ''Ball'' 600 ''PTFE'' 20 100 0 100 (-20)) 1.25 None
   \<and> find_suitable_actuators 160 ''Torque (Nm)''
       (Valve.make 2 ''Ball'' 600 ''PTFE'' 20 100 0 100 (-20)) 1.25 None
     = Inr [Candidate.make (ACTUATOR_DATABASE ! 0) 1000 (Finite 400),
            Candidate.make (ACTUATOR_DATABASE ! 3) 2000 (Finite 900),
            Candidate.make (ACTUATOR_DATABASE ! 7) 2000 (Finite 900),
            Candidate.make (ACTUATOR_DATABASE ! 2) 3000 (Finite 1400),
            Candidate.make (ACTUATOR_DATABASE ! 1) 5000 (Finite 2400),
            Candidate.make (ACTUATOR_DATABASE ! 4) 8000 (Finite 3900),
            Candidate.make (ACTUATOR_DATABASE ! 8) 10000 (Finite 4900)]
   \<and> find_suitable_actuators 160 ''Torque (Nm)''
       (Valve.make 2 ''Ball'' 600 ''PTFE'' 20 100 0 100 (-20)) 1.25 (Some ''Electric'')
     = Inr [Candidate.make (ACTUATOR_DATABASE ! 7) 2000 (Finite 900),
            Candidate.make (ACTUATOR_DATABASE ! 2) 3000 (Finite 1400),
            Candidate.make (ACTUATOR_DATABASE ! 8) 10000 (Finite 4900)]"
proof -
  let ?v = "Valve.make 2 ''Ball'' 600 ''PTFE'' 20 100 0 100 (-20)"
  let ?xs = "[Candidate.make (ACTUATOR_DATABASE ! 0) 1000 (Finite 400),
         Candidate.make (ACTUATOR_DATABASE ! 3) 2000 (Finite 900),
         Candidate.make (ACTUATOR_DATABASE ! 7) 2000 (Finite 900),
         Candidate.make (ACTUATOR_DATABASE ! 2) 3000 (Finite 1400),
         Candidate.make (ACTUATOR_DATABASE ! 1) 5000 (Finite 2400),
         Candidate.make (ACTUATOR_DATABASE ! 4) 8000 (Finite 3900),
         Candidate.make (ACTUATOR_DATABASE ! 8) 10000 (Finite 4900)]"
  have run: "find_suitable_actuators 160 ''Torque (Nm)'' ?v 1.25 None = Inr ?xs"
    by (simp add: catalogue_eval float_eval)
  have name: "''Electric'' \<noteq> [] \<and> ''Electric'' \<noteq> ''Any''" by simp
  from supply_filter_effect [where supply_type = "Some ''Any''" and required_value = 160
      and value_type = "''Torque (Nm)''" and valve = ?v and safety_factor = "1.25"
      and s = "''Electric''" and xs = ?xs]
    run name
  have same: "find_suitable_actuators 160 ''Torque (Nm)'' ?v 1.25 (Some ''Any'')
                = find_suitable_actuators 160 ''Torque (Nm)'' ?v 1.25 None"
    and sel: "find_suitable_actuators 160 ''Torque (Nm)'' ?v 1.25 (Some ''Electric'')
                = Inr (filter (\<lambda>c. supply (actuator c) = ''Electric'') ?xs)"
    by blast+
  have "filter (\<lambda>c. supply (actuator c) = ''Electric'') ?xs
          = [Candidate.make (ACTUATOR_DATABASE ! 7) 2000 (Finite 900),
             Candidate.make (ACTUATOR_DATABASE ! 2) 3000 (Finite 1400),
             Candidate.make (ACTUATOR_DATABASE ! 8) 10000 (Finite 4900)]"
    by (simp add: Candidate.make_def ACTUATOR_DATABASE_def Actuator.make_def)
  with same sel run show ?thesis by simp
qed

text \<open>
  C7. For a Gate valve, \<open>calculate_valve_torque_thrust\<close> returns
  \<open>(bore_area * pressure * 1e5 * 1.5 + stem_area * pressure * 1e5 * seal_friction)
  * (1 + max 0 (temperature - 200) * 0.0015)\<close> with the label \<open>Thrust (N)\<close>, where the
  bore area is \<open>pi * (size * 0.0254 / 2)\<^sup>2\<close> and the stem area is
  \<open>pi * (stem_dia_mm / 1000 / 2)\<^sup>2\<close>: the wedge factor 1.5 is always there and
  multiplies the differential-pressure term only.
\<close>

theorem gate_requirement:
  assumes "type valve = ''Gate''"
  shows "calculate_valve_torque_thrust valve pressure_bar temperature_c =
     ((pi * (size_inch valve * 0.0254 / 2)\<^sup>2 * pressure_bar * 100000 * 1.5
        + pi * (stem_dia_mm valve / 1000 / 2)\<^sup>2 * pressure_bar * 100000
            * get_seal_friction valve)
       * (1 + max 0 (temperature_c - 200) * 0.0015),
      ''Thrust (N)'')"
  using assms
  by (simp add: calculate_valve_torque_thrust_def calculate_gate_valve_thrust_def get_area_def
      Let_def max_def)

theorem gate_requirement_witness:
  "type (VALVE_DATABASE ! 5) = ''Gate''
   \<and> calculate_valve_torque_thrust (VALVE_DATABASE ! 5) 100 300
       = (100513.2775 * pi, ''Thrust (N)'')"
proof -
  have ty: "type (VALVE_DATABASE ! 5) = ''Gate''"
    by (simp add: VALVE_DATABASE_def Valve.make_def)
  from gate_requirement [OF ty, of 100 300] ty show ?thesis
    by (simp add: VALVE_DATABASE_def Valve.make_def get_seal_friction_def SEAL_FRICTION_def
        power2_eq_square algebra_simps)
qed

text \<open>
  C8. For a valve of type Ball or Plug with a non-negative size, the required torque does not
  decrease when the pressure grows from a non-negative value at a fixed temperature, and, at a
  fixed non-negative pressure, does not decrease when the temperature grows from 100 degrees or
  more.
\<close>

theorem ball_plug_monotone:
  assumes "type valve = ''Ball'' \<or> type valve = ''Plug''"
      and "0 \<le> size_inch valve"
  shows "(0 \<le> p1 \<and> p1 \<le> p2 \<longrightarrow>
            fst (calculate_valve_torque_thrust valve p1 temperature_c)
              \<le> fst (calculate_valve_torque_thrust valve p2 temperature_c))
     \<and> (0 \<le> pressure_bar \<and> 100 \<le> t1 \<and> t1 \<le> t2 \<longrightarrow>
            fst (calculate_valve_torque_thrust valve pressure_bar t1)
              \<le> fst (calculate_valve_torque_thrust valve pressure_bar t2))"
proof -
  define seat_factor :: real where
    "seat_factor = (if seat_material valve = ''Metal'' then 1.3
                    else if seat_material valve = ''Graphite'' then 1.1 else 1.0)"
  define temp_factor :: "real \<Rightarrow> real" where
    "temp_factor = (\<lambda>t. if t > 100 then 1.0 + (t - 100) * 0.005 else 1.0)"
  have calc: "fst (calculate_valve_torque_thrust valve p t)
                = size_inch valve * p * 0.8 * temp_factor t * seat_factor" for p t
    using assms(1)
    by (simp add: calculate_valve_torque_thrust_def calculate_ball_valve_torque_def Let_def
        seat_factor_def temp_factor_def)
  have seat: "0 \<le> seat_factor" by (simp add: seat_factor_def)
  have temp: "0 \<le> temp_factor t" for t by (simp add: temp_factor_def)
  have temp_mono: "temp_factor t1 \<le> temp_factor t2" if "t1 \<le> t2" for t1 t2
    using that by (simp add: temp_factor_def)
  have press: "fst (calculate_valve_torque_thrust valve p1 temperature_c)
                 \<le> fst (calculate_valve_torque_thrust valve p2 temperature_c)"
    if "p1 \<le> p2"
  proof -
    from that assms(2) have "size_inch valve * p1 \<le> size_inch valve * p2"
      by (rule mult_left_mono)
    then have "size_inch valve * p1 * 0.8 \<le> size_inch valve * p2 * 0.8"
      by (rule mult_right_mono) simp
    then have "size_inch valve * p1 * 0.8 * temp_factor temperature_c
                 \<le> size_inch valve * p2 * 0.8 * temp_factor temperature_c"
      using temp by (rule mult_right_mono)
    then have "size_inch valve * p1 * 0.8 * temp_factor temperature_c * seat_factor
                 \<le> size_inch valve * p2 * 0.8 * temp_factor temperature_c * seat_factor"
      using seat by (rule mult_right_mono)
    then show ?thesis by (simp only: calc)
  qed
  have heat: "fst (calculate_valve_torque_thrust valve pressure_bar t1)
                 \<le> fst (calculate_valve_torque_thrust valve pressure_bar t2)"
    if "0 \<le> pressure_bar" and "t1 \<le> t2"
  proof -
    from assms(2) that(1) have "0 \<le> size_inch valve * pressure_bar * 0.8" by simp
    with temp_mono [OF that(2)]
    have "size_inch valve * pressure_bar * 0.8 * temp_factor t1
            \<le> size_inch valve * pressure_bar * 0.8 * temp_factor t2"
      by (rule mult_left_mono)
    then have "size_inch valve * pressure_bar * 0.8 * temp_factor t1 * seat_factor
            \<le> size_inch valve * pressure_bar * 0.8 * temp_factor t2 * seat_factor"
      using seat by (rule mult_right_mono)
    then show ?thesis by (simp only: calc)
  qed
  from press heat show ?thesis by blast
qed

theorem ball_plug_monotone_witness:
  "(type (VALVE_DATABASE ! 0) = ''Ball'' \<or> type (VALVE_DATABASE ! 0) = ''Plug'')
   \<and> 0 \<le> size_inch (VALVE_DATABASE ! 0)
   \<and> fst (calculate_valve_torque_thrust (VALVE_DATABASE ! 0) 50 20)
       \<le> fst (calculate_valve_torque_thrust (VALVE_DATABASE ! 0) 100 20)
   \<and> fst (calculate_valve_torque_thrust (VALVE_DATABASE ! 0) 100 120)
       \<le> fst (calculate_valve_torque_thrust (VALVE_DATABASE ! 0) 100 200)
   \<and> calculate_valve_torque_thrust (VALVE_DATABASE ! 0) 50 20 = (80, ''Torque (Nm)'')
   \<and> calculate_valve_torque_thrust (VALVE_DATABASE ! 0) 100 120 = (176, ''Torque (Nm)'')
   \<and> calculate_valve_torque_thrust (VALVE_DATABASE ! 0) 100 200 = (240, ''Torque (Nm)'')"
proof -
  have ty: "type (VALVE_DATABASE ! 0) = ''Ball'' \<or> type (VALVE_DATABASE ! 0) = ''Plug''"
    by (simp add: VALVE_DATABASE_def Valve.make_def)
  have sz: "0 \<le> size_inch (VALVE_DATABASE ! 0)"
    by (simp add: VALVE_DATABASE_def Valve.make_def)
  have p: "(0::real) \<le> 50 \<and> (50::real) \<le> 100" by simp
  have t: "(0::real) \<le> 100 \<and> (100::real) \<le> 120 \<and> (120::real) \<le> 200" by simp
  from ball_plug_monotone [OF ty sz, of 50 100 20 100 120 200] p t
  have "fst (calculate_valve_torque_thrust (VALVE_DATABASE ! 0) 50 20)
       \<le> fst (calculate_valve_torque_thrust (VALVE_DATABASE ! 0) 100 20)"
    and "fst (calculate_valve_torque_thrust (VALVE_DATABASE ! 0) 100 120)
       \<le> fst (calculate_valve_torque_thrust (VALVE_DATABASE ! 0) 100 200)"
    by blast+
  moreover have "calculate_valve_torque_thrust (VALVE_DATABASE ! 0) 50 20 = (80, ''Torque (Nm)'')"
    by (simp add: calc_eval)
  moreover have "calculate_valve_torque_thrust (VALVE_DATABASE ! 0) 100 120 = (176, ''Torque (Nm)'')"
    by (simp add: calc_eval)
  moreover have "calculate_valve_torque_thrust (VALVE_DATABASE ! 0) 100 200 = (240, ''Torque (Nm)'')"
    by (simp add: calc_eval)
  ultimately show ?thesis using ty sz by blast
qed

text \<open>
  C9. For a valve whose type is none of Ball, Plug, Butterfly, Globe, Gate and Diaphragm,
  \<open>calculate_valve_torque_thrust\<close> returns \<open>(0, Unknown)\<close> at every pressure and
  temperature. No statement of the source's last branch can raise, and the function of the
  model has no error value.
\<close>

theorem unknown_type_zero:
  assumes "type valve \<notin> {''Ball'', ''Plug'', ''Butterfly'', ''Globe'', ''Gate'', ''Diaphragm''}"
  shows "calculate_valve_torque_thrust valve pressure_bar temperature_c = (0, ''Unknown'')"
  using assms by (simp add: calculate_valve_torque_thrust_def)

theorem unknown_type_zero_witness:
  "type (Valve.make 2 ''Needle'' 600 ''PTFE'' 20 100 0 200 (-20))
      \<notin> {''Ball'', ''Plug'', ''Butterfly'', ''Globe'', ''Gate'', ''Diaphragm''}
   \<and> calculate_valve_torque_thrust (Valve.make 2 ''Needle'' 600 ''PTFE'' 20 100 0 200 (-20)) 100 20
       = (0, ''Unknown'')"
proof -
  have ty: "type (Valve.make 2 ''Needle'' 600 ''PTFE'' 20 100 0 200 (-20))
      \<notin> {''Ball'', ''Plug'', ''Butterfly'', ''Globe'', ''Gate'', ''Diaphragm''}"
    by (simp add: Valve.make_def)
  from unknown_type_zero [OF ty, of 100 20] ty show ?thesis by blast
qed



end
